theory Spec2Isabelle
  imports Complex_Main
begin

section \<open>Numbers, vectors and scene-graph nodes\<close>

text \<open>
  The source is TypeScript over the three.js scene graph (\<^verbatim>\<open>src/model.ts\<close> and the
  animation module that follows it in the same file). A TypeScript \<^verbatim>\<open>number\<close> is
  modelled as a \<^typ>\<open>real\<close>: all sums, products and quotients are the exact ones,
  \<^verbatim>\<open>Math.PI\<close> is \<^term>\<open>pi\<close>, \<^verbatim>\<open>Math.sin\<close> and \<^verbatim>\<open>Math.cos\<close> are \<^term>\<open>sin\<close> and
  \<^term>\<open>cos\<close>. Rounding, infinities and NaN are not represented; the one place where a
  quotient could leave the finite numbers (a division by an atlas dimension) is guarded in
  the model by the outcome \<open>NonFinite\<close>.

  Mutation of objects is explicit state passing: every operation takes the object it
  mutates and returns the updated one. The fields \<^verbatim>\<open>.x .y .z\<close> of a vector are named
  \<open>vx vy\<close> (Vector2), \<open>px py pz\<close> (Vector3, a position) and \<open>ex ey ez\<close> (Euler, a
  rotation).
\<close>

record Vector2 =
  vx :: real
  vy :: real

record Vector3 =
  px :: real
  py :: real
  pz :: real

record Euler =
  ex :: real
  ey :: real
  ez :: real

text \<open>\<^verbatim>\<open>Euler.set(x, y, z)\<close> of the engine: overwrites the three angles.\<close>

definition Euler_set :: "Euler \<Rightarrow> real \<Rightarrow> real \<Rightarrow> real \<Rightarrow> Euler" where
  "Euler_set e x y z = e\<lparr>ex := x, ey := y, ez := z\<rparr>"

text \<open>The nodes of the scene graph that the source creates, used as child references.\<close>

datatype NodeId = SkinNode | HeadNode | InnerNode | OuterNode | EarsNode | RightEarNode | LeftEarNode

text \<open>
  \<^verbatim>\<open>Object3D\<close> / \<^verbatim>\<open>Group\<close> of the engine, with the fields the source reads or writes.
  A freshly constructed node has the engine's defaults: empty name, position and rotation
  zero, visible, no children.
\<close>

record Object3D =
  name :: string
  position :: Vector3
  rotation :: Euler
  visible :: bool
  children :: "NodeId list"

definition new_Object3D :: Object3D where
  "new_Object3D =
     \<lparr>name = [], position = \<lparr>px = 0, py = 0, pz = 0\<rparr>, rotation = \<lparr>ex = 0, ey = 0, ez = 0\<rparr>,
      visible = True, children = []\<rparr>"

section \<open>UV mapper\<close>

datatype error = RangeError | NonFinite

text \<open>
  The \<^verbatim>\<open>uv\<close> buffer attribute of a box geometry: a flat array of numbers and the
  re-upload flag. \<^verbatim>\<open>BufferAttribute.set(value)\<close> copies \<open>value\<close> over the start of the
  array (a typed-array \<^verbatim>\<open>set\<close> at offset 0), which raises \<^verbatim>\<open>RangeError\<close> when \<open>value\<close>
  is longer than the array. The attribute's \<^verbatim>\<open>needsUpdate\<close> is the field
  \<open>attr_needsUpdate\<close> (the materials below have a flag of the same name).
\<close>

record BufferAttribute =
  array :: "real list"
  attr_needsUpdate :: bool

record BoxGeometry =
  uv :: BufferAttribute

definition BufferAttribute_set :: "BufferAttribute \<Rightarrow> real list \<Rightarrow> error + BufferAttribute" where
  "BufferAttribute_set attr val =
     (if length (array attr) < length val then Inl RangeError
      else Inr (attr\<lparr>array := val @ drop (length val) (array attr)\<rparr>))"

text \<open>
  \<^verbatim>\<open>new BoxGeometry(w, h, d)\<close> of the engine, with one segment per side: 6 faces of 4
  vertices, each face with the texture coordinates (0,1), (1,1), (0,0), (1,0).
\<close>

definition new_BoxGeometry :: "real \<Rightarrow> real \<Rightarrow> real \<Rightarrow> BoxGeometry" where
  "new_BoxGeometry w h d =
     \<lparr>uv = \<lparr>array = concat (replicate 6 [0, 1, 1, 1, 0, 0, 1, 0]), attr_needsUpdate = False\<rparr>\<rparr>"

text \<open>The local closure \<^verbatim>\<open>toFaceVertices\<close> of \<^verbatim>\<open>setUVs\<close>, with the captured atlas size.\<close>

definition toFaceVertices :: "real \<Rightarrow> real \<Rightarrow> real \<Rightarrow> real \<Rightarrow> real \<Rightarrow> real \<Rightarrow> Vector2 list" where
  "toFaceVertices textureWidth textureHeight x1 y1 x2 y2 =
     [\<lparr>vx = x1 / textureWidth, vy = 1 - y2 / textureHeight\<rparr>,
      \<lparr>vx = x2 / textureWidth, vy = 1 - y2 / textureHeight\<rparr>,
      \<lparr>vx = x2 / textureWidth, vy = 1 - y1 / textureHeight\<rparr>,
      \<lparr>vx = x1 / textureWidth, vy = 1 - y1 / textureHeight\<rparr>]"

text \<open>
  The array \<^verbatim>\<open>newUVData\<close> that \<^verbatim>\<open>setUVs\<close> builds: the six faces, each re-ordered, in the
  order right, left, top, bottom, front, back, flattened to x, y, x, y, ...
\<close>

definition newUVData :: "real \<Rightarrow> real \<Rightarrow> real \<Rightarrow> real \<Rightarrow> real \<Rightarrow> real \<Rightarrow> real \<Rightarrow> real list" where
  "newUVData u v width height depth textureWidth textureHeight =
     (let top = toFaceVertices textureWidth textureHeight (u + depth) v (u + width + depth) (v + depth);
          bottom = toFaceVertices textureWidth textureHeight
                     (u + width + depth) v (u + width * 2 + depth) (v + depth);
          left = toFaceVertices textureWidth textureHeight u (v + depth) (u + depth) (v + depth + height);
          front = toFaceVertices textureWidth textureHeight
                    (u + depth) (v + depth) (u + width + depth) (v + depth + height);
          right = toFaceVertices textureWidth textureHeight
                    (u + width + depth) (v + depth) (u + width + depth * 2) (v + height + depth);
          back = toFaceVertices textureWidth textureHeight
                   (u + width + depth * 2) (v + depth) (u + width * 2 + depth * 2) (v + height + depth);
          uvRight = [right ! 3, right ! 2, right ! 0, right ! 1];
          uvLeft = [left ! 3, left ! 2, left ! 0, left ! 1];
          uvTop = [top ! 3, top ! 2, top ! 0, top ! 1];
          uvBottom = [bottom ! 0, bottom ! 1, bottom ! 3, bottom ! 2];
          uvFront = [front ! 3, front ! 2, front ! 0, front ! 1];
          uvBack = [back ! 3, back ! 2, back ! 0, back ! 1]
      in concat (map (\<lambda>uvArray. concat (map (\<lambda>uv. [vx uv, vy uv]) uvArray))
                   [uvRight, uvLeft, uvTop, uvBottom, uvFront, uvBack]))"

definition setUVs ::
  "BoxGeometry \<Rightarrow> real \<Rightarrow> real \<Rightarrow> real \<Rightarrow> real \<Rightarrow> real \<Rightarrow> real \<Rightarrow> real \<Rightarrow> error + BoxGeometry" where
  "setUVs box u v width height depth textureWidth textureHeight =
     (if textureWidth = 0 \<or> textureHeight = 0 then Inl NonFinite
      else case BufferAttribute_set (uv box)
                  (newUVData u v width height depth textureWidth textureHeight) of
             Inl e \<Rightarrow> Inl e
           | Inr uvAttr \<Rightarrow> Inr (box\<lparr>uv := uvAttr\<lparr>attr_needsUpdate := True\<rparr>\<rparr>))"

definition setSkinUVs ::
  "BoxGeometry \<Rightarrow> real \<Rightarrow> real \<Rightarrow> real \<Rightarrow> real \<Rightarrow> real \<Rightarrow> error + BoxGeometry" where
  "setSkinUVs box u v width height depth = setUVs box u v width height depth 64 64"

section \<open>Materials, meshes and body parts\<close>

text \<open>
  A texture is an engine object; the model identifies it by a handle. \<^verbatim>\<open>Texture | null\<close>
  is \<^typ>\<open>nat option\<close>.
\<close>

type_synonym Texture = nat

datatype Side = FrontSide | DoubleSide

text \<open>
  \<^verbatim>\<open>MeshStandardMaterial\<close> of the engine, with the fields the source sets. The field
  \<^verbatim>\<open>map\<close> is named \<open>map_tex\<close>. \<open>new_MeshStandardMaterial\<close> carries the engine's defaults;
  \<^verbatim>\<open>clone()\<close> is a copy of the record.
\<close>

record MeshStandardMaterial =
  map_tex :: "Texture option"
  needsUpdate :: bool
  side :: Side
  transparent :: bool
  alphaTest :: real
  polygonOffset :: bool
  polygonOffsetFactor :: real
  polygonOffsetUnits :: real

definition new_MeshStandardMaterial :: MeshStandardMaterial where
  "new_MeshStandardMaterial =
     \<lparr>map_tex = None, needsUpdate = False, side = FrontSide, transparent = False, alphaTest = 0,
      polygonOffset = False, polygonOffsetFactor = 0, polygonOffsetUnits = 0\<rparr>"

text \<open>
  A mesh holds its geometry and a reference to its material. The materials are owned by
  the skin or ears object and shared by reference, so a mesh names its material instead of
  holding a copy.
\<close>

datatype MaterialRef =
  Layer1Material | Layer1MaterialBiased | Layer2Material | Layer2MaterialBiased | EarsMaterial

record Mesh = Object3D +
  geometry :: BoxGeometry
  material :: MaterialRef

definition new_Mesh :: "BoxGeometry \<Rightarrow> MaterialRef \<Rightarrow> Mesh" where
  "new_Mesh g m = Object3D.extend new_Object3D (Mesh.fields g m)"

record BodyPart = Object3D +
  innerLayer :: Mesh
  outerLayer :: Mesh

text \<open>The constructor of \<^verbatim>\<open>BodyPart\<close> names its two layers.\<close>

definition new_BodyPart :: "Mesh \<Rightarrow> Mesh \<Rightarrow> BodyPart" where
  "new_BodyPart inner outer =
     Object3D.extend new_Object3D
       (BodyPart.fields (inner\<lparr>name := ''inner''\<rparr>) (outer\<lparr>name := ''outer''\<rparr>))"

section \<open>Skin object\<close>

text \<open>
  \<^verbatim>\<open>ModelType\<close> is the string union \<^verbatim>\<open>"default" | "slim"\<close>. A mode-change listener is a
  closure \<^verbatim>\<open>() => void\<close>: it takes no argument and acts on the state it has captured, of
  type \<^typ>\<open>'e\<close>. The private field \<^verbatim>\<open>_map\<close> is named \<open>skin_map\<close>.
\<close>

datatype ModelType = ModelDefault | ModelSlim

record 'e SkinObject = Object3D +
  head :: BodyPart
  modelListeners :: "('e \<Rightarrow> 'e) list"
  slim :: bool
  skin_map :: "Texture option"
  layer1Material :: MeshStandardMaterial
  layer1MaterialBiased :: MeshStandardMaterial
  layer2Material :: MeshStandardMaterial
  layer2MaterialBiased :: MeshStandardMaterial

text \<open>\<^verbatim>\<open>Array.prototype.forEach\<close> over closures without arguments, threading their state.\<close>

primrec forEach :: "('e \<Rightarrow> 'e) list \<Rightarrow> 'e \<Rightarrow> 'e" where
  "forEach [] env = env"
| "forEach (listener # rest) env = forEach rest (listener env)"

definition SkinObject_get_map :: "'e SkinObject \<Rightarrow> Texture option" where
  "SkinObject_get_map this = skin_map this"

definition SkinObject_set_map :: "Texture option \<Rightarrow> 'e SkinObject \<Rightarrow> 'e SkinObject" where
  "SkinObject_set_map newMap this =
     this\<lparr>skin_map := newMap,
          layer1Material := (layer1Material this)\<lparr>map_tex := newMap, needsUpdate := True\<rparr>,
          layer1MaterialBiased := (layer1MaterialBiased this)\<lparr>map_tex := newMap, needsUpdate := True\<rparr>,
          layer2Material := (layer2Material this)\<lparr>map_tex := newMap, needsUpdate := True\<rparr>,
          layer2MaterialBiased := (layer2MaterialBiased this)\<lparr>map_tex := newMap, needsUpdate := True\<rparr>\<rparr>"


definition SkinObject_set_modelType :: "ModelType \<Rightarrow> 'e SkinObject \<Rightarrow> 'e \<Rightarrow> 'e SkinObject \<times> 'e" where
  "SkinObject_set_modelType val this env =
     (let this' = this\<lparr>slim := (val = ModelSlim)\<rparr>
      in (this', forEach (modelListeners this') env))"

text \<open>
  \<^verbatim>\<open>getBodyParts\<close> keeps the direct children that are body parts; the head is the only
  node of that class.
\<close>

definition getBodyParts :: "'e SkinObject \<Rightarrow> NodeId list" where
  "getBodyParts this = filter (\<lambda>it. it = HeadNode) (children this)"

definition setInnerLayerVisible :: "bool \<Rightarrow> 'e SkinObject \<Rightarrow> 'e SkinObject" where
  "setInnerLayerVisible val this =
     (if getBodyParts this = [] then this
      else this\<lparr>head := (head this)\<lparr>innerLayer := (innerLayer (head this))\<lparr>visible := val\<rparr>\<rparr>\<rparr>)"

definition setOuterLayerVisible :: "bool \<Rightarrow> 'e SkinObject \<Rightarrow> 'e SkinObject" where
  "setOuterLayerVisible val this =
     (if getBodyParts this = [] then this
      else this\<lparr>head := (head this)\<lparr>outerLayer := (outerLayer (head this))\<lparr>visible := val\<rparr>\<rparr>\<rparr>)"

definition SkinObject_resetJoints :: "'e SkinObject \<Rightarrow> 'e SkinObject" where
  "SkinObject_resetJoints this =
     this\<lparr>head := (head this)\<lparr>rotation := Euler_set (rotation (head this)) 0 0 0\<rparr>\<rparr>"

text \<open>
  The constructor. The two UV installations can fail only through \<open>setUVs\<close>; the last
  statement is the assignment \<^verbatim>\<open>this.modelType = "default"\<close>, which goes through the setter.
\<close>

definition new_SkinObject :: "'e \<Rightarrow> error + ('e SkinObject \<times> 'e)" where
  "new_SkinObject env =
     (let l1 = new_MeshStandardMaterial\<lparr>side := FrontSide\<rparr>;
          l2 = new_MeshStandardMaterial\<lparr>side := DoubleSide, transparent := True,
                                        alphaTest := 1 / 100000\<rparr>;
          l1b = l1\<lparr>polygonOffset := True, polygonOffsetFactor := 1, polygonOffsetUnits := 1\<rparr>;
          l2b = l2\<lparr>polygonOffset := True, polygonOffsetFactor := 1, polygonOffsetUnits := 1\<rparr>
      in case setSkinUVs (new_BoxGeometry 8 8 8) 0 0 8 8 8 of
           Inl e \<Rightarrow> Inl e
         | Inr headBox \<Rightarrow>
             (case setSkinUVs (new_BoxGeometry 9 9 9) 32 0 8 8 8 of
                Inl e \<Rightarrow> Inl e
              | Inr head2Box \<Rightarrow>
                  (let headMesh = new_Mesh headBox Layer1Material;
                       head2Mesh = new_Mesh head2Box Layer2Material;
                       h0 = new_BodyPart headMesh head2Mesh;
                       h1 = h0\<lparr>name := ''head'', children := children h0 @ [InnerNode, OuterNode]\<rparr>;
                       h2 = h1\<lparr>innerLayer := (innerLayer h1)
                                  \<lparr>position := (position (innerLayer h1))\<lparr>py := 0\<rparr>\<rparr>\<rparr>;
                       h3 = h2\<lparr>outerLayer := (outerLayer h2)
                                  \<lparr>position := (position (outerLayer h2))\<lparr>py := 0\<rparr>\<rparr>\<rparr>;
                       this = Object3D.extend (new_Object3D\<lparr>children := [HeadNode]\<rparr>)
                                (SkinObject.fields h3 [] False None l1 l1b l2 l2b)
                   in Inr (SkinObject_set_modelType ModelDefault this env))))"

section \<open>Ears object\<close>

text \<open>The private field \<^verbatim>\<open>material\<close> of the ears is named \<open>ears_material\<close>.\<close>

record EarsObject = Object3D +
  rightEar :: Mesh
  leftEar :: Mesh
  ears_material :: MeshStandardMaterial

definition EarsObject_get_map :: "EarsObject \<Rightarrow> Texture option" where
  "EarsObject_get_map this = map_tex (ears_material this)"

definition EarsObject_set_map :: "Texture option \<Rightarrow> EarsObject \<Rightarrow> EarsObject" where
  "EarsObject_set_map newMap this =
     this\<lparr>ears_material := (ears_material this)\<lparr>map_tex := newMap, needsUpdate := True\<rparr>\<rparr>"

definition new_EarsObject :: "error + EarsObject" where
  "new_EarsObject =
     (let mat = new_MeshStandardMaterial\<lparr>side := FrontSide\<rparr>
      in case setUVs (new_BoxGeometry 8 8 (4 / 3)) 0 0 6 6 1 14 7 of
           Inl e \<Rightarrow> Inl e
         | Inr earBox \<Rightarrow>
             (let r0 = new_Mesh earBox EarsMaterial;
                  r1 = r0\<lparr>name := ''rightEar'', position := (position r0)\<lparr>px := - 6\<rparr>\<rparr>;
                  l0 = new_Mesh earBox EarsMaterial;
                  l1 = l0\<lparr>name := ''leftEar'', position := (position l0)\<lparr>px := 6\<rparr>\<rparr>
              in Inr (Object3D.extend (new_Object3D\<lparr>children := [RightEarNode, LeftEarNode]\<rparr>)
                        (EarsObject.fields r1 l1 mat))))"

section \<open>Player object\<close>

datatype BackEquipment = Cape | Elytra

record 'e PlayerObject = Object3D +
  skin :: "'e SkinObject"
  ears :: EarsObject

definition get_backEquipment :: "'e PlayerObject \<Rightarrow> BackEquipment option" where
  "get_backEquipment this = None"

definition set_backEquipment :: "BackEquipment option \<Rightarrow> 'e PlayerObject \<Rightarrow> 'e PlayerObject" where
  "set_backEquipment val this = this"

definition PlayerObject_resetJoints :: "'e PlayerObject \<Rightarrow> 'e PlayerObject" where
  "PlayerObject_resetJoints this = this\<lparr>skin := SkinObject_resetJoints (skin this)\<rparr>"

text \<open>The constructor; the ears are added to the head's children, not to the player's.\<close>

definition new_PlayerObject :: "'e \<Rightarrow> error + ('e PlayerObject \<times> 'e)" where
  "new_PlayerObject env =
     (case new_SkinObject env of
        Inl e \<Rightarrow> Inl e
      | Inr (s0, env') \<Rightarrow>
          (case new_EarsObject of
             Inl e \<Rightarrow> Inl e
           | Inr e0 \<Rightarrow>
               (let s1 = s0\<lparr>name := ''skin'', position := (position s0)\<lparr>py := 0\<rparr>\<rparr>;
                    e1 = e0\<lparr>name := ''ears'', position := (position e0)\<lparr>py := 8, pz := 2 / 3\<rparr>,
                            visible := False\<rparr>;
                    s2 = s1\<lparr>head := (head s1)\<lparr>children := children (head s1) @ [EarsNode]\<rparr>\<rparr>
                in Inr (Object3D.extend (new_Object3D\<lparr>children := [SkinNode]\<rparr>)
                          (PlayerObject.fields s2 e1), env'))))"

section \<open>Animations\<close>

text \<open>
  The abstract class \<^verbatim>\<open>PlayerAnimation\<close> has the fields \<open>speed\<close>, \<open>paused\<close> and
  \<open>progress\<close>; the five subclasses of the source are the alternatives of
  \<open>AnimationClass\<close>, with the fields they add (\<^verbatim>\<open>fn\<close> of \<^verbatim>\<open>FunctionAnimation\<close>,
  \<^verbatim>\<open>headBobbing\<close> of \<^verbatim>\<open>WalkingAnimation\<close>). No \<^verbatim>\<open>animate\<close> of the source assigns to a
  field of the animation, so \<open>animate\<close> reads the animation and returns the mutated player.
  The callback \<^verbatim>\<open>fn\<close> is a function of its three arguments that returns the player as it
  left it.
\<close>

datatype 'e AnimationClass =
  FunctionAnimation (fn: "'e PlayerObject \<Rightarrow> real \<Rightarrow> real \<Rightarrow> 'e PlayerObject")
| IdleAnimation
| WalkingAnimation (headBobbing: bool)
| RunningAnimation
| FlyingAnimation

record 'e PlayerAnimation =
  speed :: real
  paused :: bool
  progress :: real
  anim_class :: "'e AnimationClass"

text \<open>Field initialisers of the classes: speed 1, not paused, progress 0, head bobbing on.\<close>

definition new_PlayerAnimation :: "'e AnimationClass \<Rightarrow> 'e PlayerAnimation" where
  "new_PlayerAnimation c = \<lparr>speed = 1, paused = False, progress = 0, anim_class = c\<rparr>"

definition new_WalkingAnimation :: "'e PlayerAnimation" where
  "new_WalkingAnimation = new_PlayerAnimation (WalkingAnimation True)"

text \<open>Assignments to \<^verbatim>\<open>player.skin.head.rotation\<close>, \<^verbatim>\<open>player.rotation\<close>, \<^verbatim>\<open>player.position\<close>.\<close>

definition set_head_rotation :: "Euler \<Rightarrow> 'e PlayerObject \<Rightarrow> 'e PlayerObject" where
  "set_head_rotation r player =
     player\<lparr>skin := (skin player)\<lparr>head := (head (skin player))\<lparr>rotation := r\<rparr>\<rparr>\<rparr>"

definition head_rotation :: "'e PlayerObject \<Rightarrow> Euler" where
  "head_rotation player = rotation (head (skin player))"

definition FunctionAnimation_animate ::
  "('e PlayerObject \<Rightarrow> real \<Rightarrow> real \<Rightarrow> 'e PlayerObject) \<Rightarrow> 'e PlayerAnimation \<Rightarrow> 'e PlayerObject \<Rightarrow> real
     \<Rightarrow> 'e PlayerObject" where
  "FunctionAnimation_animate f this player delta = f player (progress this) delta"

definition IdleAnimation_animate :: "'e PlayerAnimation \<Rightarrow> 'e PlayerObject \<Rightarrow> 'e PlayerObject" where
  "IdleAnimation_animate this player = player"

definition WalkingAnimation_animate ::
  "bool \<Rightarrow> 'e PlayerAnimation \<Rightarrow> 'e PlayerObject \<Rightarrow> 'e PlayerObject" where
  "WalkingAnimation_animate bobbing this player =
     (let t = progress this * 8
      in if bobbing then
           (let p1 = set_head_rotation ((head_rotation player)\<lparr>ey := sin (t / 4) * (2 / 10)\<rparr>) player
            in set_head_rotation ((head_rotation p1)\<lparr>ex := sin (t / 5) * (1 / 10)\<rparr>) p1)
         else
           (let p1 = set_head_rotation ((head_rotation player)\<lparr>ey := 0\<rparr>) player
            in set_head_rotation ((head_rotation p1)\<lparr>ex := 0\<rparr>) p1))"

text \<open>The local constant \<^verbatim>\<open>t\<close> of \<^verbatim>\<open>RunningAnimation.animate\<close>.\<close>

definition RunningAnimation_t :: "'e PlayerAnimation \<Rightarrow> real" where
  "RunningAnimation_t this = progress this * 15 + pi * (1 / 2)"

definition RunningAnimation_animate :: "'e PlayerAnimation \<Rightarrow> 'e PlayerObject \<Rightarrow> 'e PlayerObject" where
  "RunningAnimation_animate this player =
     (let t = RunningAnimation_t this;
          p1 = player\<lparr>position := (position player)\<lparr>py := cos (t * 2)\<rparr>\<rparr>;
          p2 = p1\<lparr>position := (position p1)\<lparr>px := cos t * (15 / 100)\<rparr>\<rparr>
      in p2\<lparr>rotation := (rotation p2)\<lparr>ez := cos (t + pi) * (1 / 100)\<rparr>\<rparr>)"

definition clamp :: "real \<Rightarrow> real \<Rightarrow> real \<Rightarrow> real" where
  "clamp num lo hi = (if num \<le> lo then lo else if num \<ge> hi then hi else num)"

text \<open>The two local constants \<^verbatim>\<open>t\<close> and \<^verbatim>\<open>startProgress\<close> of \<^verbatim>\<open>FlyingAnimation.animate\<close>.\<close>

definition FlyingAnimation_t :: "'e PlayerAnimation \<Rightarrow> real" where
  "FlyingAnimation_t this = (if progress this > 0 then progress this * 20 else 0)"

definition startProgress :: "'e PlayerAnimation \<Rightarrow> real" where
  "startProgress this = clamp ((FlyingAnimation_t this * FlyingAnimation_t this) / 100) 0 1"

definition FlyingAnimation_animate :: "'e PlayerAnimation \<Rightarrow> 'e PlayerObject \<Rightarrow> 'e PlayerObject" where
  "FlyingAnimation_animate this player =
     (let p1 = player\<lparr>rotation := (rotation player)\<lparr>ex := (startProgress this * pi) / 2\<rparr>\<rparr>
      in set_head_rotation
           ((head_rotation p1)\<lparr>ex := (if startProgress this > 5 / 10
                                        then pi / 4 - ex (rotation p1) else 0)\<rparr>) p1)"

text \<open>The abstract method \<^verbatim>\<open>animate\<close>, resolved by the class of the animation.\<close>

definition animate :: "'e PlayerAnimation \<Rightarrow> 'e PlayerObject \<Rightarrow> real \<Rightarrow> 'e PlayerObject" where
  "animate this player delta =
     (case anim_class this of
        FunctionAnimation f \<Rightarrow> FunctionAnimation_animate f this player delta
      | IdleAnimation \<Rightarrow> IdleAnimation_animate this player
      | WalkingAnimation bobbing \<Rightarrow> WalkingAnimation_animate bobbing this player
      | RunningAnimation \<Rightarrow> RunningAnimation_animate this player
      | FlyingAnimation \<Rightarrow> FlyingAnimation_animate this player)"

text \<open>
  \<^verbatim>\<open>PlayerAnimation.update\<close>: the state is the pair of the animation and the player, in
  the order of the source's statements.
\<close>

definition update ::
  "'e PlayerAnimation \<Rightarrow> 'e PlayerObject \<Rightarrow> real \<Rightarrow> 'e PlayerAnimation \<times> 'e PlayerObject" where
  "update this player deltaTime =
     (if paused this then (this, player)
      else
        (let delta = deltaTime * speed this;
             player' = animate this player delta;
             this' = this\<lparr>progress := progress this + delta\<rparr>
         in (this', player')))"

text \<open>
  A render loop: \<open>update\<close> called once per elapsed time of the list, keeping the state
  after every call.
\<close>

fun replay ::
  "'e PlayerAnimation \<Rightarrow> 'e PlayerObject \<Rightarrow> real list \<Rightarrow> ('e PlayerAnimation \<times> 'e PlayerObject) list" where
  "replay this player [] = []"
| "replay this player (deltaTime # rest) =
     (case update this player deltaTime of
        (this', player') \<Rightarrow> (this', player') # replay this' player' rest)"

text \<open>The state after the whole list of calls.\<close>

fun update_all ::
  "'e PlayerAnimation \<Rightarrow> 'e PlayerObject \<Rightarrow> real list \<Rightarrow> 'e PlayerAnimation \<times> 'e PlayerObject" where
  "update_all this player [] = (this, player)"
| "update_all this player (deltaTime # rest) =
     (case update this player deltaTime of (this', player') \<Rightarrow> update_all this' player' rest)"

text \<open>
  The accumulated progress of the specification: the progress of the animation advanced
  by each elapsed time of the list, scaled by the speed.
\<close>

definition accumulated :: "'e PlayerAnimation \<Rightarrow> real list \<Rightarrow> real" where
  "accumulated this deltas = foldl (\<lambda>p deltaTime. p + deltaTime * speed this) (progress this) deltas"

section \<open>The constructed player\<close>

text \<open>
  The player that \<^verbatim>\<open>new PlayerObject()\<close> returns when the listeners' captured state
  is \<open>env\<close> (lemma \<open>new_PlayerObject_constructed\<close> below shows that the constructor
  succeeds and leaves \<open>env\<close> as it is), used as the concrete player of the examples.
\<close>

definition constructed_player :: "'e \<Rightarrow> 'e PlayerObject" where
  "constructed_player env = fst (projr (new_PlayerObject env))"

section \<open>Properties of the UV mapper\<close>

lemma newUVData_length: "length (newUVData u v w h d tw th) = 48"
  by (simp add: newUVData_def toFaceVertices_def)




lemma new_BoxGeometry_length: "length (array (uv (new_BoxGeometry w h d))) = 48"
proof -
  have "replicate 6 [0, 1, 1, 1, 0, 0, 1, 0::real] =
          [[0, 1, 1, 1, 0, 0, 1, 0], [0, 1, 1, 1, 0, 0, 1, 0], [0, 1, 1, 1, 0, 0, 1, 0],
           [0, 1, 1, 1, 0, 0, 1, 0], [0, 1, 1, 1, 0, 0, 1, 0], [0, 1, 1, 1, 0, 0, 1, 0]]"
    by (simp add: numeral_eq_Suc)
  then show ?thesis by (simp add: new_BoxGeometry_def)
qed

lemma setUVs_new_BoxGeometry:
  "tw \<noteq> 0 \<Longrightarrow> th \<noteq> 0 \<Longrightarrow>
   setUVs (new_BoxGeometry a b c) u v w h d tw th =
     Inr \<lparr>uv = \<lparr>array = newUVData u v w h d tw th, attr_needsUpdate = True\<rparr>\<rparr>"
proof -
  assume "tw \<noteq> 0" "th \<noteq> 0"
  then have "setUVs (new_BoxGeometry a b c) u v w h d tw th =
      Inr ((new_BoxGeometry a b c)\<lparr>uv := (uv (new_BoxGeometry a b c))
             \<lparr>array := newUVData u v w h d tw th, attr_needsUpdate := True\<rparr>\<rparr>)"
    by (simp add: setUVs_def BufferAttribute_set_def newUVData_length new_BoxGeometry_length)
  then show ?thesis by (simp add: new_BoxGeometry_def)
qed



section \<open>Properties of the assemblies\<close>

lemma new_PlayerObject_succeeds: "\<exists>p. new_PlayerObject env = Inr (p, env)"
  by (simp add: new_PlayerObject_def new_SkinObject_def new_EarsObject_def setSkinUVs_def
      setUVs_new_BoxGeometry Let_def SkinObject_set_modelType_def Object3D.defs SkinObject.defs)

lemma new_PlayerObject_constructed: "new_PlayerObject env = Inr (constructed_player env, env)"
  using new_PlayerObject_succeeds [of env] by (auto simp: constructed_player_def)

text \<open>
  Claim C5. After \<^verbatim>\<open>map = X\<close> on a skin object (\<open>X\<close> a texture or null), each of the four
  owned materials has \<open>X\<close> as its texture map and its re-upload flag set, and reading
  \<^verbatim>\<open>map\<close> returns \<open>X\<close>; on the freshly constructed skin object \<^verbatim>\<open>map\<close> reads as null.
\<close>

theorem SkinObject_map_propagates:
  "map_tex (layer1Material (SkinObject_set_map X this)) = X
   \<and> map_tex (layer1MaterialBiased (SkinObject_set_map X this)) = X
   \<and> map_tex (layer2Material (SkinObject_set_map X this)) = X
   \<and> map_tex (layer2MaterialBiased (SkinObject_set_map X this)) = X
   \<and> needsUpdate (layer1Material (SkinObject_set_map X this))
   \<and> needsUpdate (layer1MaterialBiased (SkinObject_set_map X this))
   \<and> needsUpdate (layer2Material (SkinObject_set_map X this))
   \<and> needsUpdate (layer2MaterialBiased (SkinObject_set_map X this))
   \<and> SkinObject_get_map (SkinObject_set_map X this) = X
   \<and> (\<exists>s. new_SkinObject env = Inr (s, env) \<and> SkinObject_get_map s = None)"
  by (simp add: SkinObject_set_map_def SkinObject_get_map_def new_SkinObject_def
      setSkinUVs_def setUVs_new_BoxGeometry Let_def SkinObject_set_modelType_def
      Object3D.defs SkinObject.defs)

text \<open>
  Claim C9, as the code has it. The back equipment is a stub: the setter leaves the player
  as it is and the getter returns null whatever was assigned, so the value read after an
  assignment of \<open>x\<close> is \<open>x\<close> only for \<open>x\<close> = null.
\<close>

theorem backEquipment_stub:
  "get_backEquipment (set_backEquipment x player) = None \<and> set_backEquipment x player = player"
  by (simp add: get_backEquipment_def set_backEquipment_def)

text \<open>
  Claim C9 as stated fails: after \<^verbatim>\<open>backEquipment = "cape"\<close> on the constructed player,
  reading \<^verbatim>\<open>backEquipment\<close> does not return \<^verbatim>\<open>"cape"\<close>.
\<close>

theorem backEquipment_round_trip_counterexample:
  "get_backEquipment (set_backEquipment (Some Cape) (constructed_player ())) \<noteq> Some Cape"
  by (simp add: get_backEquipment_def)

text \<open>
  Selecting a field of the scene-graph node from a player or skin whose own fields were
  updated.
\<close>

lemma PlayerObject_skin_update_frame:
  "name (skin_update f p) = name p"
  "position (skin_update f p) = position p"
  "rotation (skin_update f p) = rotation p"
  "visible (skin_update f p) = visible p"
  "children (skin_update f p) = children p"
  for p :: "'e PlayerObject"
  by (cases p; simp)+

lemma SkinObject_head_update_frame:
  "name (head_update f s) = name s"
  "position (head_update f s) = position s"
  "rotation (head_update f s) = rotation s"
  "visible (head_update f s) = visible s"
  "children (head_update f s) = children s"
  for s :: "'e SkinObject"
  by (cases s; simp)+

lemma PlayerObject_node_update_frame:
  "skin (position_update f p) = skin p"
  "ears (position_update f p) = ears p"
  "skin (rotation_update g p) = skin p"
  "ears (rotation_update g p) = ears p"
  for p :: "'e PlayerObject"
  by (cases p; simp)+

lemma Euler_set_value: "Euler_set e x y z = \<lparr>ex = x, ey = y, ez = z\<rparr>"
  by (cases e) (simp add: Euler_set_def)

lemma BodyPart_rotation_update_frame:
  "innerLayer (rotation_update f h) = innerLayer h"
  "outerLayer (rotation_update f h) = outerLayer h"
  for h :: BodyPart
  by (cases h; simp)+

lemma set_head_rotation_frame:
  "name (set_head_rotation r p) = name p"
  "position (set_head_rotation r p) = position p"
  "rotation (set_head_rotation r p) = rotation p"
  "visible (set_head_rotation r p) = visible p"
  "children (set_head_rotation r p) = children p"
  "ears (set_head_rotation r p) = ears p"
  "head_rotation (set_head_rotation r p) = r"
  by (simp_all add: set_head_rotation_def head_rotation_def PlayerObject_skin_update_frame)



lemma forEach_append: "forEach (xs @ ys) env = forEach ys (forEach xs env)"
  by (induction xs arbitrary: env) simp_all




section \<open>Properties of the animation framework\<close>



lemma update_paused: "paused this \<Longrightarrow> update this player deltaTime = (this, player)"
  by (simp add: update_def)

lemma update_all_paused: "paused this \<Longrightarrow> update_all this player deltas = (this, player)"
  by (induction deltas) (simp_all add: update_paused)

lemma replay_paused:
  "paused this \<Longrightarrow> replay this player deltas = replicate (length deltas) (this, player)"
  by (induction deltas) (simp_all add: update_paused)

text \<open>
  Claim C2. While the animation is paused, \<open>update\<close> returns (it is not an error) and
  changes nothing: the animation, with its progress, and the whole player, with every
  position, rotation and visibility in it, are the ones before the call; the same holds
  after any number of calls in succession, and after each of them.
\<close>

theorem update_paused_is_noop:
  assumes "paused this"
  shows "update this player deltaTime = (this, player)
         \<and> update_all this player deltas = (this, player)
         \<and> replay this player deltas = replicate (length deltas) (this, player)"
  using assms by (simp add: update_paused update_all_paused replay_paused)

theorem update_paused_is_noop_witness:
  "paused ((new_PlayerAnimation RunningAnimation :: unit PlayerAnimation)\<lparr>paused := True\<rparr>)
   \<and> update ((new_PlayerAnimation RunningAnimation)\<lparr>paused := True\<rparr>) (constructed_player ()) 1
       = ((new_PlayerAnimation RunningAnimation)\<lparr>paused := True\<rparr>, (constructed_player ()))
   \<and> update_all ((new_PlayerAnimation RunningAnimation)\<lparr>paused := True\<rparr>) (constructed_player ()) [1, 2, 3]
       = ((new_PlayerAnimation RunningAnimation)\<lparr>paused := True\<rparr>, (constructed_player ()))"
proof -
  let ?a = "(new_PlayerAnimation RunningAnimation :: unit PlayerAnimation)\<lparr>paused := True\<rparr>"
  have h: "paused ?a" by simp
  note r = update_paused_is_noop [OF h, of "constructed_player ()" 1 "[1, 2, 3]"]
  have u1: "update ?a (constructed_player ()) 1 = (?a, (constructed_player ()))"
    using r by (rule conjunct1)
  have u2: "update_all ?a (constructed_player ()) [1, 2, 3] = (?a, (constructed_player ()))"
    using r by (rule conjunct1 [OF conjunct2])
  from h u1 u2 show ?thesis by (intro conjI)
qed





lemma FlyingAnimation_body_pitch:
  "ex (rotation (FlyingAnimation_animate this player)) = startProgress this * pi / 2"
  by (simp add: FlyingAnimation_animate_def set_head_rotation_frame Let_def)






lemma RunningAnimation_pose:
  "position (RunningAnimation_animate this player)
     = (position player)\<lparr>py := cos (RunningAnimation_t this * 2),
                          px := cos (RunningAnimation_t this) * (15 / 100)\<rparr>"
  "rotation (RunningAnimation_animate this player)
     = (rotation player)\<lparr>ez := cos (RunningAnimation_t this + pi) * (1 / 100)\<rparr>"
  "skin (RunningAnimation_animate this player) = skin player"
  "ears (RunningAnimation_animate this player) = ears player"
  by (simp_all add: RunningAnimation_animate_def Let_def PlayerObject_node_update_frame)

lemma set_head_rotation_twice:
  "set_head_rotation r (set_head_rotation r' p) = set_head_rotation r p"
  by (simp add: set_head_rotation_def)

lemma WalkingAnimation_overwrites:
  "WalkingAnimation_animate b a (WalkingAnimation_animate b a' player) = WalkingAnimation_animate b a player"
  by (simp add: WalkingAnimation_animate_def Let_def set_head_rotation_frame set_head_rotation_twice)

lemma RunningAnimation_overwrites:
  "RunningAnimation_animate a (RunningAnimation_animate a' player) = RunningAnimation_animate a player"
  by (cases player) (simp add: RunningAnimation_animate_def Let_def)

lemma FlyingAnimation_overwrites:
  "FlyingAnimation_animate a (FlyingAnimation_animate a' player) = FlyingAnimation_animate a player"
  by (cases player) (simp add: FlyingAnimation_animate_def Let_def set_head_rotation_def head_rotation_def)

lemma animate_ignores_delta:
  "\<forall>f. anim_class this \<noteq> FunctionAnimation f \<Longrightarrow> animate this player d = animate this player d'"
  by (cases "anim_class this") (simp_all add: animate_def)

lemma animate_overwrites:
  "\<forall>f. anim_class a \<noteq> FunctionAnimation f \<Longrightarrow> anim_class a' = anim_class a \<Longrightarrow>
   animate a (animate a' player d) d' = animate a player d'"
  by (cases "anim_class a")
     (simp_all add: animate_def IdleAnimation_animate_def WalkingAnimation_overwrites
        RunningAnimation_overwrites FlyingAnimation_overwrites)

lemma accumulated_Cons:
  "accumulated this (d # ds) = accumulated (this\<lparr>progress := progress this + d * speed this\<rparr>) ds"
  by (simp add: accumulated_def)

lemma replay_length: "length (replay this player deltas) = length deltas"
  by (induction deltas arbitrary: this player) (simp_all split: prod.splits)

lemma replay_closed_form:
  assumes "\<forall>f. anim_class this \<noteq> FunctionAnimation f" and "\<not> paused this" and "k < length deltas"
  shows "replay this player deltas ! k =
           (this\<lparr>progress := accumulated this (take (Suc k) deltas)\<rparr>,
            animate (this\<lparr>progress := accumulated this (take k deltas)\<rparr>) player 0)"
  using assms
proof (induction deltas arbitrary: this player k)
  case Nil
  then show ?case by simp
next
  case (Cons d ds)
  let ?this1 = "this\<lparr>progress := progress this + d * speed this\<rparr>"
  let ?p1 = "animate this player (d * speed this)"
  have step: "update this player d = (?this1, ?p1)"
    using Cons.prems(2) by (simp add: update_def Let_def)
  show ?case
  proof (cases k)
    case 0
    have "animate this player (d * speed this) = animate this player 0"
      using Cons.prems(1) by (rule animate_ignores_delta)
    then show ?thesis using 0 step by (simp add: accumulated_def)
  next
    case (Suc j)
    have c1: "\<forall>f. anim_class ?this1 \<noteq> FunctionAnimation f" using Cons.prems(1) by simp
    have u1: "\<not> paused ?this1" using Cons.prems(2) by simp
    have j: "j < length ds" using Cons.prems(3) Suc by simp
    have ih: "replay ?this1 ?p1 ds ! j =
           (?this1\<lparr>progress := accumulated ?this1 (take (Suc j) ds)\<rparr>,
            animate (?this1\<lparr>progress := accumulated ?this1 (take j ds)\<rparr>) ?p1 0)"
      by (rule Cons.IH [OF c1 u1 j])
    have ow: "animate (this\<lparr>progress := accumulated ?this1 (take j ds)\<rparr>) ?p1 0
                = animate (this\<lparr>progress := accumulated ?this1 (take j ds)\<rparr>) player 0"
      using Cons.prems(1) by (intro animate_overwrites) simp_all
    show ?thesis
      using Suc step ih ow by (simp add: accumulated_Cons)
  qed
qed

text \<open>
  Claim C3. For an idle, walking, running or flying animation, two replays of the same
  list of elapsed times from the same animation state (speed, paused, progress, class) and
  the same player give the same animation and player after every step. The states of a
  replay are a function of the initial state and the accumulated progress alone: after
  step \<open>k\<close> of an unpaused animation the progress is the accumulated progress of the first
  \<open>k + 1\<close> elapsed times, and the player is the initial player posed by \<open>animate\<close> at the
  accumulated progress of the first \<open>k\<close> elapsed times; it depends neither on the last
  elapsed time nor on the poses of the earlier steps. A paused animation leaves the initial
  state at every step.
\<close>

theorem replay_deterministic:
  assumes "\<forall>f. anim_class this \<noteq> FunctionAnimation f"
  shows "(speed this' = speed this \<and> paused this' = paused this \<and> progress this' = progress this
            \<and> anim_class this' = anim_class this \<and> player' = player \<longrightarrow>
          replay this' player' deltas = replay this player deltas)
         \<and> length (replay this player deltas) = length deltas
         \<and> (\<forall>k < length deltas. replay this player deltas ! k =
               (if paused this then (this, player)
                else (this\<lparr>progress := accumulated this (take (Suc k) deltas)\<rparr>,
                      animate (this\<lparr>progress := accumulated this (take k deltas)\<rparr>) player 0)))"
proof (intro conjI impI allI)
  assume "speed this' = speed this \<and> paused this' = paused this \<and> progress this' = progress this
            \<and> anim_class this' = anim_class this \<and> player' = player"
  then have "this' = this" and "player' = player" by simp_all
  then show "replay this' player' deltas = replay this player deltas" by simp
next
  show "length (replay this player deltas) = length deltas" by (rule replay_length)
next
  fix k assume k: "k < length deltas"
  show "replay this player deltas ! k =
               (if paused this then (this, player)
                else (this\<lparr>progress := accumulated this (take (Suc k) deltas)\<rparr>,
                      animate (this\<lparr>progress := accumulated this (take k deltas)\<rparr>) player 0))"
  proof (cases "paused this")
    case True
    then show ?thesis using k by (simp add: replay_paused)
  next
    case False
    then show ?thesis using replay_closed_form [OF assms False k] by simp
  qed
qed

text \<open>
  A new running animation replayed on the constructed player with the elapsed times 1
  and 2: after the second step the progress is 3 and the pose is the one of progress 1.
\<close>

theorem replay_deterministic_witness:
  "(\<forall>f. anim_class (new_PlayerAnimation RunningAnimation :: unit PlayerAnimation) \<noteq> FunctionAnimation f)
   \<and> (1::nat) < length [1, 2 :: real]
   \<and> replay (new_PlayerAnimation RunningAnimation) (constructed_player ()) [1, 2] ! 1
       = ((new_PlayerAnimation RunningAnimation)\<lparr>progress := 3\<rparr>,
          animate ((new_PlayerAnimation RunningAnimation)\<lparr>progress := 1\<rparr>) (constructed_player ()) 0)"
proof -
  let ?a = "new_PlayerAnimation RunningAnimation :: unit PlayerAnimation"
  have c: "\<forall>f. anim_class ?a \<noteq> FunctionAnimation f" by (simp add: new_PlayerAnimation_def)
  have k: "(1::nat) < length [1, 2 :: real]" by simp
  have u: "\<not> paused ?a" by (simp add: new_PlayerAnimation_def)
  from replay_deterministic [OF c, of ?a "constructed_player ()" "constructed_player ()" "[1, 2]"] k u
  have "replay ?a (constructed_player ()) [1, 2] ! 1 =
          (?a\<lparr>progress := accumulated ?a (take (Suc 1) [1, 2])\<rparr>,
           animate (?a\<lparr>progress := accumulated ?a (take 1 [1, 2])\<rparr>) (constructed_player ()) 0)"
    by simp
  moreover have "accumulated ?a (take (Suc 1) [1, 2]) = 3" "accumulated ?a (take 1 [1, 2]) = 1"
    by (simp_all add: accumulated_def new_PlayerAnimation_def)
  ultimately show ?thesis using c k by simp
qed

section \<open>Joint reset\<close>

text \<open>
  Claim C10. \<^verbatim>\<open>PlayerObject.resetJoints\<close> sets the rotation of the head to (0, 0, 0) and
  changes nothing else: the position, rotation and visibility of the player, the ears, the
  position, rotation, visibility, slim flag, texture and four materials of the skin, and the
  position, visibility and two layers of the head are the ones before the call. In
  particular the position and roll that a running animation has written to the player, and
  the pitch that a flying animation has written, are still there after the reset.
\<close>

theorem resetJoints_frame:
  "rotation (head (skin (PlayerObject_resetJoints player))) = \<lparr>ex = 0, ey = 0, ez = 0\<rparr>
   \<and> PlayerObject_resetJoints player
       = player\<lparr>skin := (skin player)\<lparr>head := (head (skin player))\<lparr>rotation := \<lparr>ex = 0, ey = 0, ez = 0\<rparr>\<rparr>\<rparr>\<rparr>
   \<and> position (PlayerObject_resetJoints player) = position player
   \<and> rotation (PlayerObject_resetJoints player) = rotation player
   \<and> visible (PlayerObject_resetJoints player) = visible player
   \<and> ears (PlayerObject_resetJoints player) = ears player
   \<and> position (skin (PlayerObject_resetJoints player)) = position (skin player)
   \<and> rotation (skin (PlayerObject_resetJoints player)) = rotation (skin player)
   \<and> visible (skin (PlayerObject_resetJoints player)) = visible (skin player)
   \<and> slim (skin (PlayerObject_resetJoints player)) = slim (skin player)
   \<and> skin_map (skin (PlayerObject_resetJoints player)) = skin_map (skin player)
   \<and> layer1Material (skin (PlayerObject_resetJoints player)) = layer1Material (skin player)
   \<and> layer1MaterialBiased (skin (PlayerObject_resetJoints player)) = layer1MaterialBiased (skin player)
   \<and> layer2Material (skin (PlayerObject_resetJoints player)) = layer2Material (skin player)
   \<and> layer2MaterialBiased (skin (PlayerObject_resetJoints player)) = layer2MaterialBiased (skin player)
   \<and> position (head (skin (PlayerObject_resetJoints player))) = position (head (skin player))
   \<and> visible (head (skin (PlayerObject_resetJoints player))) = visible (head (skin player))
   \<and> innerLayer (head (skin (PlayerObject_resetJoints player))) = innerLayer (head (skin player))
   \<and> outerLayer (head (skin (PlayerObject_resetJoints player))) = outerLayer (head (skin player))
   \<and> py (position (PlayerObject_resetJoints (RunningAnimation_animate this player)))
       = cos (RunningAnimation_t this * 2)
   \<and> px (position (PlayerObject_resetJoints (RunningAnimation_animate this player)))
       = cos (RunningAnimation_t this) * (15 / 100)
   \<and> ez (rotation (PlayerObject_resetJoints (RunningAnimation_animate this player)))
       = cos (RunningAnimation_t this + pi) * (1 / 100)
   \<and> ex (rotation (PlayerObject_resetJoints (FlyingAnimation_animate this player)))
       = startProgress this * pi / 2"
proof -
  have frame: "PlayerObject_resetJoints player
       = player\<lparr>skin := (skin player)\<lparr>head := (head (skin player))\<lparr>rotation := \<lparr>ex = 0, ey = 0, ez = 0\<rparr>\<rparr>\<rparr>\<rparr>"
    by (simp add: PlayerObject_resetJoints_def SkinObject_resetJoints_def Euler_set_value)
  have root: "position (PlayerObject_resetJoints q) = position q"
             "rotation (PlayerObject_resetJoints q) = rotation q" for q :: "'a PlayerObject"
    by (simp_all add: PlayerObject_resetJoints_def PlayerObject_skin_update_frame)
  have run: "py (position (PlayerObject_resetJoints (RunningAnimation_animate this player)))
               = cos (RunningAnimation_t this * 2)"
            "px (position (PlayerObject_resetJoints (RunningAnimation_animate this player)))
               = cos (RunningAnimation_t this) * (15 / 100)"
            "ez (rotation (PlayerObject_resetJoints (RunningAnimation_animate this player)))
               = cos (RunningAnimation_t this + pi) * (1 / 100)"
    by (simp_all add: root RunningAnimation_pose)
  have fly: "ex (rotation (PlayerObject_resetJoints (FlyingAnimation_animate this player)))
               = startProgress this * pi / 2"
    by (simp add: root FlyingAnimation_body_pitch)
  have rest: "rotation (head (skin (PlayerObject_resetJoints player))) = \<lparr>ex = 0, ey = 0, ez = 0\<rparr>
   \<and> visible (PlayerObject_resetJoints player) = visible player
   \<and> ears (PlayerObject_resetJoints player) = ears player
   \<and> position (skin (PlayerObject_resetJoints player)) = position (skin player)
   \<and> rotation (skin (PlayerObject_resetJoints player)) = rotation (skin player)
   \<and> visible (skin (PlayerObject_resetJoints player)) = visible (skin player)
   \<and> slim (skin (PlayerObject_resetJoints player)) = slim (skin player)
   \<and> skin_map (skin (PlayerObject_resetJoints player)) = skin_map (skin player)
   \<and> layer1Material (skin (PlayerObject_resetJoints player)) = layer1Material (skin player)
   \<and> layer1MaterialBiased (skin (PlayerObject_resetJoints player)) = layer1MaterialBiased (skin player)
   \<and> layer2Material (skin (PlayerObject_resetJoints player)) = layer2Material (skin player)
   \<and> layer2MaterialBiased (skin (PlayerObject_resetJoints player)) = layer2MaterialBiased (skin player)
   \<and> position (head (skin (PlayerObject_resetJoints player))) = position (head (skin player))
   \<and> visible (head (skin (PlayerObject_resetJoints player))) = visible (head (skin player))
   \<and> innerLayer (head (skin (PlayerObject_resetJoints player))) = innerLayer (head (skin player))
   \<and> outerLayer (head (skin (PlayerObject_resetJoints player))) = outerLayer (head (skin player))"
    by (simp add: PlayerObject_resetJoints_def SkinObject_resetJoints_def Euler_set_value
       PlayerObject_skin_update_frame SkinObject_head_update_frame BodyPart_rotation_update_frame)
  from frame root [of player] run fly rest show ?thesis by (intro conjI) simp_all
qed

end
